theory Spec2Isabelle
  imports Main "HOL-Library.Sublist"
begin

section \<open>The task management API of \<^verbatim>\<open>src/todo.js\<close> (server.js)\<close>

text \<open>
  The server keeps one array \<^verbatim>\<open>tasks\<close> in process memory and exposes three routes:
  \<^verbatim>\<open>GET /api/tasks\<close>, \<^verbatim>\<open>POST /api/tasks\<close> and \<^verbatim>\<open>PATCH /api/tasks/:id/assign\<close>.
  Each handler is modelled as a function from the array before the request to the
  response and the array after it. What a handler reads from outside the array is an
  argument: the JSON body or query of the request, and every reading of the clock
  (\<^verbatim>\<open>Date.now()\<close>, \<^verbatim>\<open>new Date()\<close>).

  Modelling decisions:
  \<^item> A JavaScript string is a \<^typ>\<open>string\<close>: a list of code units below 256. On such
    strings \<^verbatim>\<open>s.length\<close> is \<^term>\<open>length s\<close>.
  \<^item> A property of the body or of the query is a string or is absent
    (\<^typ>\<open>string option\<close>, \<^term>\<open>None\<close> for \<^verbatim>\<open>undefined\<close>); a body is a map from property
    names to strings.
  \<^item> A reading of the clock is the number of milliseconds since the epoch, a
    \<^typ>\<open>nat\<close>. The string \<^verbatim>\<open>new Date().toISOString()\<close> stored in \<^verbatim>\<open>createdAt\<close> and
    \<^verbatim>\<open>updatedAt\<close> is represented by the millisecond value it renders, so that one
    timestamp is later than another exactly when its value is greater.
  \<^item> The validation chains of express-validator are modelled by what they do to a
    request: a sanitizer replaces the property in the body, a validator runs on the
    string form of the property (the empty string when the property is absent, since
    neither chain is marked optional) and records its message when it fails, and
    every chain runs whether or not an earlier one failed.
  \<^item> The rate limiter, helmet and the logger are outside the model.
\<close>

subsection \<open>Strings\<close>

text \<open>The code units below 256 that the regular expression \<^verbatim>\<open>\s\<close> matches.\<close>

definition is_space :: "char \<Rightarrow> bool" where
  "is_space c \<longleftrightarrow>
     c \<in> set [CHR 0x09, CHR 0x0A, CHR 0x0B, CHR 0x0C, CHR 0x0D, CHR 0x20, CHR 0xA0]"

text \<open>The sanitizer \<^verbatim>\<open>trim()\<close>: whitespace is removed at both ends.\<close>

definition trim :: "string \<Rightarrow> string" where
  "trim s = rev (dropWhile is_space (rev (dropWhile is_space s)))"

text \<open>The string form on which a standard validator or sanitizer runs.\<close>

definition toString :: "string option \<Rightarrow> string" where
  "toString v = (case v of None \<Rightarrow> [] | Some s \<Rightarrow> s)"

text \<open>The decimal rendering of a number in a template literal, \<^verbatim>\<open>`${n}`\<close>.\<close>

definition digit :: "nat \<Rightarrow> char" where
  "digit d = ''0123456789'' ! d"

fun string_of_nat :: "nat \<Rightarrow> string" where
  "string_of_nat n =
     (if n < 10 then [digit n] else string_of_nat (n div 10) @ [digit (n mod 10)])"

declare string_of_nat.simps [simp del]

subsection \<open>Tasks, responses, requests\<close>

text \<open>
  A task object. \<^verbatim>\<open>assignee\<close> is \<^verbatim>\<open>null\<close> or a string; \<^verbatim>\<open>createdAt\<close> and \<^verbatim>\<open>updatedAt\<close>
  are absent on the two tasks the array starts with, and \<^verbatim>\<open>updatedAt\<close> is absent on
  every task until it is assigned. \<^verbatim>\<open>title\<close> is whatever property the body has.
\<close>

record task =
  id_task :: string
  title :: "string option"
  status :: string
  assignee :: "string option"
  createdAt :: "nat option"
  updatedAt :: "nat option"

text \<open>One entry of \<^verbatim>\<open>errors.array()\<close>: the field and the message of a failed validator.\<close>

record field_error =
  path :: string
  msg :: string

datatype payload =
    TaskList "task list"
  | TaskObj task
  | ErrorMsg string
  | ErrorList "field_error list"

text \<open>A response: the HTTP status code and the JSON payload.\<close>

type_synonym response = "nat \<times> payload"

type_synonym body = "string \<rightharpoonup> string"

text \<open>The request as the validation chains see it: the body and the errors recorded so far.\<close>

record req =
  body :: body
  errors :: "field_error list"

text \<open>The array at startup.\<close>

definition initial_tasks :: "task list" where
  "initial_tasks =
     [\<lparr>id_task = ''tsk-1'', title = Some ''Refactor auth module'', status = ''in-progress'',
       assignee = Some ''dev-1'', createdAt = None, updatedAt = None\<rparr>,
      \<lparr>id_task = ''tsk-2'', title = Some ''Write API documentation'', status = ''todo'',
       assignee = None, createdAt = None, updatedAt = None\<rparr>]"

subsection \<open>Utility functions\<close>

text \<open>
  \<^verbatim>\<open>tasks.find(t => t.id === id)\<close> returns a reference to the first object of the array
  with that id. The reference is modelled by the position of the object in the array.
\<close>

fun findTask :: "string \<Rightarrow> task list \<Rightarrow> nat option" where
  "findTask i [] = None"
| "findTask i (t # ts) = (if id_task t = i then Some 0 else map_option Suc (findTask i ts))"

text \<open>\<^verbatim>\<open>assignee && assignee.startsWith('dev-')\<close>: absent and empty strings are falsy.\<close>

definition validateAssignee :: "string option \<Rightarrow> bool" where
  "validateAssignee a = (case a of None \<Rightarrow> False | Some s \<Rightarrow> s \<noteq> [] \<and> prefix ''dev-'' s)"

subsection \<open>Validation middleware of \<^verbatim>\<open>POST /api/tasks\<close>\<close>

definition statuses :: "string list" where
  "statuses = [''todo'', ''in-progress'', ''done'']"

definition title_error :: field_error where
  "title_error = \<lparr>path = ''title'', msg = ''Title must be at least 5 characters''\<rparr>"

definition status_error :: field_error where
  "status_error = \<lparr>path = ''status'', msg = ''Invalid status''\<rparr>"

text \<open>\<^verbatim>\<open>body('title').trim().isLength({ min: 5 }).withMessage(...)\<close>\<close>

definition check_title :: "req \<Rightarrow> req" where
  "check_title r =
     (let v = trim (toString (body r ''title''));
          r' = r\<lparr>body := (body r)(''title'' \<mapsto> v)\<rparr>
      in if 5 \<le> length v then r' else r'\<lparr>errors := errors r' @ [title_error]\<rparr>)"

text \<open>\<^verbatim>\<open>body('status').isIn(['todo', 'in-progress', 'done']).withMessage(...)\<close>\<close>

definition check_status :: "req \<Rightarrow> req" where
  "check_status r =
     (if toString (body r ''status'') \<in> set statuses then r
      else r\<lparr>errors := errors r @ [status_error]\<rparr>)"

text \<open>
  The array \<^verbatim>\<open>validateTaskInput\<close>: both chains, then the function that answers 400 with
  every recorded error, or calls \<^verbatim>\<open>next()\<close> with the sanitized body.
\<close>

definition validateTaskInput :: "body \<Rightarrow> response + body" where
  "validateTaskInput b =
     (let r = check_status (check_title \<lparr>body = b, errors = []\<rparr>)
      in if errors r \<noteq> [] then Inl (400, ErrorList (errors r)) else Inr (body r))"

subsection \<open>The handlers\<close>

text \<open>\<^verbatim>\<open>GET /api/tasks\<close>: \<^verbatim>\<open>status ? tasks.filter(...) : [...tasks]\<close>; the empty string is falsy.\<close>

definition get_tasks :: "string option \<Rightarrow> task list \<Rightarrow> response \<times> task list" where
  "get_tasks q tasks =
     (let result = (case q of
                      None \<Rightarrow> tasks
                    | Some s \<Rightarrow> if s \<noteq> [] then filter (\<lambda>t. status t = s) tasks else tasks)
      in ((200, TaskList result), tasks))"

text \<open>
  \<^verbatim>\<open>POST /api/tasks\<close>. The handler reads the clock twice: \<open>now_id\<close> is the value of
  \<^verbatim>\<open>Date.now()\<close> in the id, \<open>now_created\<close> the value of \<^verbatim>\<open>new Date()\<close> in \<^verbatim>\<open>createdAt\<close>.
\<close>

definition post_tasks :: "nat \<Rightarrow> nat \<Rightarrow> body \<Rightarrow> task list \<Rightarrow> response \<times> task list" where
  "post_tasks now_id now_created b tasks =
     (case validateTaskInput b of
        Inl resp \<Rightarrow> (resp, tasks)
      | Inr b' \<Rightarrow>
          (let newTask =
                 \<lparr>id_task = ''tsk-'' @ string_of_nat now_id,
                  title = b' ''title'',
                  status = (case b' ''status'' of None \<Rightarrow> ''todo'' | Some s \<Rightarrow> s),
                  assignee = None,
                  createdAt = Some now_created,
                  updatedAt = None\<rparr>
           in ((201, TaskObj newTask), tasks @ [newTask])))"

text \<open>\<^verbatim>\<open>PATCH /api/tasks/:id/assign\<close>; \<open>now\<close> is the value of \<^verbatim>\<open>new Date()\<close> in \<^verbatim>\<open>updatedAt\<close>.\<close>

definition patch_assign :: "nat \<Rightarrow> string \<Rightarrow> body \<Rightarrow> task list \<Rightarrow> response \<times> task list" where
  "patch_assign now taskId b tasks =
     (let a = b ''assignee'' in
      if \<not> validateAssignee a then ((400, ErrorMsg ''Invalid assignee format''), tasks)
      else case findTask taskId tasks of
             None \<Rightarrow> ((404, ErrorMsg ''Task not found''), tasks)
           | Some i \<Rightarrow>
               (let task = (tasks ! i)\<lparr>assignee := a, updatedAt := Some now\<rparr>
                in ((200, TaskObj task), tasks[i := task])))"

subsection \<open>Sequences of requests\<close>

datatype request =
    GetTasks "string option"
  | PostTasks nat nat body
  | PatchAssign nat string body

fun handle :: "request \<Rightarrow> task list \<Rightarrow> response \<times> task list" where
  "handle (GetTasks q) tasks = get_tasks q tasks"
| "handle (PostTasks now_id now_created b) tasks = post_tasks now_id now_created b tasks"
| "handle (PatchAssign now taskId b) tasks = patch_assign now taskId b tasks"

fun run :: "request list \<Rightarrow> task list \<Rightarrow> task list" where
  "run [] tasks = tasks"
| "run (r # rs) tasks = run rs (snd (handle r tasks))"

text \<open>
  The clock readings that became ids: the \<open>now_id\<close> of every \<^verbatim>\<open>POST\<close> of the sequence
  whose body passes validation.
\<close>

fun id_clocks :: "request list \<Rightarrow> nat list" where
  "id_clocks [] = []"
| "id_clocks (PostTasks now_id now_created b # rs) =
     (case validateTaskInput b of Inl _ \<Rightarrow> id_clocks rs | Inr _ \<Rightarrow> now_id # id_clocks rs)"
| "id_clocks (_ # rs) = id_clocks rs"

subsection \<open>Comparing the timestamps of a task\<close>

text \<open>
  Whether a task carries both timestamps and \<^verbatim>\<open>updatedAt\<close> is later than \<^verbatim>\<open>createdAt\<close>.
\<close>

definition updated_after_created :: "task \<Rightarrow> bool" where
  "updated_after_created t =
     (case (createdAt t, updatedAt t) of (Some c, Some u) \<Rightarrow> c < u | _ \<Rightarrow> False)"

section \<open>Auxiliary facts\<close>

text \<open>The definitions a closed instance is evaluated with.\<close>

lemmas eval_defs = post_tasks_def patch_assign_def get_tasks_def validateTaskInput_def
  check_title_def check_status_def toString_def trim_def is_space_def statuses_def
  title_error_def status_error_def validateAssignee_def initial_tasks_def Let_def

subsection \<open>The decimal rendering is injective\<close>

lemma digit_inj: "a < 10 \<Longrightarrow> b < 10 \<Longrightarrow> digit a = digit b \<Longrightarrow> a = b"
proof -
  assume a: "a < 10" and b: "b < 10" and e: "digit a = digit b"
  have val: "of_char (digit k) = 48 + k" if "k < 10" for k
  proof -
    from that have "k = 0 \<or> k = 1 \<or> k = 2 \<or> k = 3 \<or> k = 4 \<or> k = 5 \<or> k = 6 \<or> k = 7 \<or> k = 8 \<or> k = 9"
      by arith
    then show ?thesis
      by (elim disjE) (simp_all add: digit_def)
  qed
  from e have "(of_char (digit a) :: nat) = of_char (digit b)" by simp
  with a b show ?thesis by (simp add: val)
qed

lemma string_of_nat_small: "n < 10 \<Longrightarrow> string_of_nat n = [digit n]"
  by (simp add: string_of_nat.simps)

lemma string_of_nat_large:
  "\<not> n < 10 \<Longrightarrow> string_of_nat n = string_of_nat (n div 10) @ [digit (n mod 10)]"
  by (subst string_of_nat.simps) simp

lemma string_of_nat_nonempty: "string_of_nat n \<noteq> []"
  by (cases "n < 10") (simp_all add: string_of_nat_small string_of_nat_large)

lemma string_of_nat_inj: "string_of_nat m = string_of_nat n \<Longrightarrow> m = n"
proof (induction m arbitrary: n rule: string_of_nat.induct)
  case (1 m)
  show ?case
  proof (cases "m < 10")
    case m: True
    show ?thesis
    proof (cases "n < 10")
      case True
      with m "1.prems" show ?thesis
        by (simp add: string_of_nat_small digit_inj)
    next
      case False
      with m "1.prems" string_of_nat_nonempty [of "n div 10"] show ?thesis
        by (auto simp: string_of_nat_small string_of_nat_large)
    qed
  next
    case m: False
    show ?thesis
    proof (cases "n < 10")
      case True
      with m "1.prems" string_of_nat_nonempty [of "m div 10"] show ?thesis
        by (auto simp: string_of_nat_small string_of_nat_large)
    next
      case False
      with m "1.prems" have p: "string_of_nat (m div 10) = string_of_nat (n div 10)"
        and d: "digit (m mod 10) = digit (n mod 10)"
        by (simp_all add: string_of_nat_large)
      from "1.IH" [OF m p] have "m div 10 = n div 10" .
      moreover from d have "m mod 10 = n mod 10"
        by (simp add: digit_inj)
      ultimately show ?thesis
        by (metis div_mult_mod_eq)
    qed
  qed
qed

subsection \<open>Validation\<close>

lemma validateTaskInput_eq:
  "validateTaskInput b =
     (let v = trim (toString (b ''title''));
          es = (if 5 \<le> length v then [] else [title_error]) @
               (if toString (b ''status'') \<in> set statuses then [] else [status_error])
      in if es \<noteq> [] then Inl (400, ErrorList es) else Inr (b(''title'' \<mapsto> v)))"
  by (simp add: validateTaskInput_def check_title_def check_status_def Let_def)

lemma validateTaskInput_Inr:
  "validateTaskInput b = Inr b' \<Longrightarrow>
     5 \<le> length (trim (toString (b ''title''))) \<and> toString (b ''status'') \<in> set statuses \<and>
     b' = b(''title'' \<mapsto> trim (toString (b ''title'')))"
  by (simp add: validateTaskInput_eq Let_def split: if_splits)

subsection \<open>Looking a task up\<close>

lemma findTask_None: "findTask i ts = None \<longleftrightarrow> i \<notin> id_task ` set ts"
  by (induction ts) auto

lemma findTask_Some:
  "findTask i ts = Some k \<Longrightarrow>
     k < length ts \<and> id_task (ts ! k) = i \<and> (\<forall>j<k. id_task (ts ! j) \<noteq> i)"
proof (induction ts arbitrary: k)
  case Nil
  then show ?case by simp
next
  case (Cons t ts)
  show ?case
  proof (cases "id_task t = i")
    case True
    with Cons.prems show ?thesis by simp
  next
    case False
    with Cons.prems obtain k' where k': "findTask i ts = Some k'" "k = Suc k'"
      by auto
    from Cons.IH [OF k'(1)] False k'(2) show ?thesis
      by (auto simp: less_Suc_eq_0_disj)
  qed
qed

subsection \<open>The three outcomes of an assignment\<close>

lemma patch_assign_invalid:
  "\<not> validateAssignee (b ''assignee'') \<Longrightarrow>
   patch_assign now taskId b tasks = ((400, ErrorMsg ''Invalid assignee format''), tasks)"
  by (simp add: patch_assign_def)

lemma patch_assign_missing:
  "validateAssignee (b ''assignee'') \<Longrightarrow> findTask taskId tasks = None \<Longrightarrow>
   patch_assign now taskId b tasks = ((404, ErrorMsg ''Task not found''), tasks)"
  by (simp add: patch_assign_def)

lemma patch_assign_found:
  "validateAssignee (b ''assignee'') \<Longrightarrow> findTask taskId tasks = Some k \<Longrightarrow>
   patch_assign now taskId b tasks =
     ((200, TaskObj ((tasks ! k)\<lparr>assignee := b ''assignee'', updatedAt := Some now\<rparr>)),
      tasks[k := (tasks ! k)\<lparr>assignee := b ''assignee'', updatedAt := Some now\<rparr>])"
  by (simp add: patch_assign_def Let_def)

lemma patch_assign_200:
  "fst (fst (patch_assign now taskId b tasks)) = 200 \<Longrightarrow>
   validateAssignee (b ''assignee'') \<and> (\<exists>k. findTask taskId tasks = Some k)"
  by (cases "validateAssignee (b ''assignee'')"; cases "findTask taskId tasks")
     (simp_all add: patch_assign_invalid patch_assign_missing)

lemma post_tasks_failure:
  "fst (fst (post_tasks now_id now_created b tasks)) \<noteq> 201 \<Longrightarrow>
   snd (post_tasks now_id now_created b tasks) = tasks"
  by (cases "validateTaskInput b") (simp_all add: post_tasks_def Let_def)

lemma patch_assign_failure:
  "fst (fst (patch_assign now taskId b tasks)) \<noteq> 200 \<Longrightarrow>
   snd (patch_assign now taskId b tasks) = tasks"
  by (cases "validateAssignee (b ''assignee'')"; cases "findTask taskId tasks")
     (simp_all add: patch_assign_invalid patch_assign_missing patch_assign_found)

subsection \<open>Ids and statuses along a sequence of requests\<close>

lemma post_tasks_ids:
  "map id_task (snd (post_tasks n1 n2 b ts)) =
     map id_task ts @
     (case validateTaskInput b of Inl _ \<Rightarrow> [] | Inr _ \<Rightarrow> [''tsk-'' @ string_of_nat n1])"
  by (simp add: post_tasks_def Let_def split: sum.split)

lemma assign_update_ids:
  "k < length ts \<Longrightarrow>
   map id_task (ts[k := (ts ! k)\<lparr>assignee := a, updatedAt := u\<rparr>]) = map id_task ts"
  by (simp add: list_eq_iff_nth_eq nth_list_update)

lemma patch_assign_ids: "map id_task (snd (patch_assign now i b ts)) = map id_task ts"
  by (auto simp: patch_assign_def Let_def assign_update_ids dest: findTask_Some split: option.split)

lemma get_tasks_snd: "snd (get_tasks q ts) = ts"
  by (simp add: get_tasks_def)

lemma run_ids:
  "map id_task (run rs ts) =
     map id_task ts @ map (\<lambda>n. ''tsk-'' @ string_of_nat n) (id_clocks rs)"
proof (induction rs arbitrary: ts)
  case Nil
  then show ?case by simp
next
  case (Cons r rs)
  show ?case
    by (cases r) (simp_all add: Cons.IH get_tasks_snd post_tasks_ids patch_assign_ids split: sum.split)
qed

lemma post_tasks_status:
  "\<forall>t\<in>set ts. status t \<in> set statuses \<Longrightarrow>
   \<forall>t\<in>set (snd (post_tasks n1 n2 b ts)). status t \<in> set statuses"
proof -
  assume inv: "\<forall>t\<in>set ts. status t \<in> set statuses"
  show ?thesis
  proof (cases "validateTaskInput b")
    case (Inl resp)
    with inv show ?thesis by (simp add: post_tasks_def)
  next
    case (Inr b')
    from validateTaskInput_Inr [OF Inr]
    have s: "toString (b ''status'') \<in> set statuses" and b': "b' ''status'' = b ''status''"
      by simp_all
    have "(case b' ''status'' of None \<Rightarrow> ''todo'' | Some s \<Rightarrow> s) \<in> set statuses"
    proof (cases "b ''status''")
      case None
      then show ?thesis by (simp add: b' statuses_def)
    next
      case (Some x)
      with s show ?thesis by (simp add: b' toString_def)
    qed
    with inv Inr show ?thesis
      by (simp add: post_tasks_def Let_def)
  qed
qed

lemma patch_assign_status:
  "\<forall>t\<in>set ts. status t \<in> set statuses \<Longrightarrow>
   \<forall>t\<in>set (snd (patch_assign now i b ts)). status t \<in> set statuses"
proof -
  assume inv: "\<forall>t\<in>set ts. status t \<in> set statuses"
  show ?thesis
  proof (cases "validateAssignee (b ''assignee'')")
    case False
    with inv show ?thesis by (simp add: patch_assign_def)
  next
    case v: True
    show ?thesis
    proof (cases "findTask i ts")
      case None
      with v inv show ?thesis by (simp add: patch_assign_def)
    next
      case (Some k)
      then have k: "k < length ts" by (simp add: findTask_Some)
      let ?t = "(ts ! k)\<lparr>assignee := b ''assignee'', updatedAt := Some now\<rparr>"
      have s: "snd (patch_assign now i b ts) = ts[k := ?t]"
        using v Some by (simp add: patch_assign_def Let_def)
      have "status ?t \<in> set statuses"
        using inv k by simp
      with inv set_update_subset_insert [of ts k ?t] show ?thesis
        unfolding s by auto
    qed
  qed
qed

lemma run_status:
  "\<forall>t\<in>set ts. status t \<in> set statuses \<Longrightarrow> \<forall>t\<in>set (run rs ts). status t \<in> set statuses"
proof (induction rs arbitrary: ts)
  case Nil
  then show ?case by simp
next
  case (Cons r rs)
  have "\<forall>t\<in>set (snd (handle r ts)). status t \<in> set statuses"
  proof (cases r)
    case (GetTasks q)
    with Cons.prems show ?thesis by (simp add: get_tasks_snd)
  next
    case (PostTasks n1 n2 b)
    with post_tasks_status [OF Cons.prems] show ?thesis by simp
  next
    case (PatchAssign now i b)
    with patch_assign_status [OF Cons.prems] show ?thesis by simp
  qed
  then show ?case
    using Cons.IH by simp
qed

lemma initial_status: "\<forall>t\<in>set initial_tasks. status t \<in> set statuses"
  by (simp add: initial_tasks_def statuses_def)

section \<open>Properties\<close>

subsection \<open>Creating a task\<close>

text \<open>
  Claim C1. A create with a valid title and no status is meant to succeed with the status
  \<^verbatim>\<open>todo\<close>: the handler destructures the body with \<^verbatim>\<open>status = 'todo'\<close> and its doc comment
  documents \<^verbatim>\<open>[status=todo]\<close>. The validation chain of \<^verbatim>\<open>status\<close> is not marked optional,
  so it runs on the empty string when the property is absent and rejects it. Whatever the
  rest of the body, a body without \<^verbatim>\<open>status\<close> is answered 400 and the array is left as
  it was; for the body \<^verbatim>\<open>{ title: "Refactor module" }\<close> the only error reported is the
  one of \<^verbatim>\<open>status\<close>.
\<close>

theorem create_without_status_rejected:
  "fst (fst (post_tasks now_id now_created (b(''status'' := None)) tasks)) = 400 \<and>
   snd (post_tasks now_id now_created (b(''status'' := None)) tasks) = tasks \<and>
   post_tasks now_id now_created [''title'' \<mapsto> ''Refactor module''] tasks =
     ((400, ErrorList [\<lparr>path = ''status'', msg = ''Invalid status''\<rparr>]), tasks)"
proof -
  have "toString ((b(''status'' := None)) ''status'') \<notin> set statuses"
    by (simp add: toString_def statuses_def)
  then obtain es where "validateTaskInput (b(''status'' := None)) = Inl (400, ErrorList es)"
    by (simp add: validateTaskInput_eq Let_def)
  then have "post_tasks now_id now_created (b(''status'' := None)) tasks = ((400, ErrorList es), tasks)"
    by (simp add: post_tasks_def)
  moreover have "post_tasks now_id now_created [''title'' \<mapsto> ''Refactor module''] tasks =
     ((400, ErrorList [\<lparr>path = ''status'', msg = ''Invalid status''\<rparr>]), tasks)"
    by (simp add: eval_defs)
  ultimately show ?thesis by simp
qed

text \<open>
  Claim C2, as stated, fails: the id is the millisecond clock reading, so two creates
  that read the same millisecond both succeed and the array then holds two tasks with the
  same id.
\<close>

theorem same_clock_same_id_counterexample:
  "fst (fst (post_tasks 1700000000000 1700000000000
        [''title'' \<mapsto> ''Refactor module'', ''status'' \<mapsto> ''todo''] initial_tasks)) = 201 \<and>
   fst (fst (post_tasks 1700000000000 1700000000000
        [''title'' \<mapsto> ''Write more tests'', ''status'' \<mapsto> ''done'']
        (snd (post_tasks 1700000000000 1700000000000
           [''title'' \<mapsto> ''Refactor module'', ''status'' \<mapsto> ''todo''] initial_tasks)))) = 201 \<and>
   \<not> distinct (map id_task
        (snd (post_tasks 1700000000000 1700000000000
           [''title'' \<mapsto> ''Write more tests'', ''status'' \<mapsto> ''done'']
           (snd (post_tasks 1700000000000 1700000000000
              [''title'' \<mapsto> ''Refactor module'', ''status'' \<mapsto> ''todo''] initial_tasks)))))"
  by (simp add: eval_defs)

text \<open>
  Claim C2, amended. Starting from the array at startup, after every sequence of requests
  in which the successful creates read pairwise different values of \<^verbatim>\<open>Date.now()\<close>, none of
  them 1 or 2 (the ids the array starts with), the ids of the tasks are pairwise distinct.
\<close>

theorem ids_distinct_if_clocks_distinct:
  assumes "distinct (id_clocks rs)" and "1 \<notin> set (id_clocks rs)" and "2 \<notin> set (id_clocks rs)"
  shows "distinct (map id_task (run rs initial_tasks))"
proof -
  let ?mk = "\<lambda>n. ''tsk-'' @ string_of_nat n"
  have inj: "inj ?mk"
    by (auto simp: inj_on_def dest: string_of_nat_inj)
  have seeded: "map id_task initial_tasks = [?mk 1, ?mk 2]"
    by (simp add: initial_tasks_def string_of_nat_small digit_def)
  have d: "distinct (1 # 2 # id_clocks rs)"
    using assms by simp
  have "inj_on ?mk (set (1 # 2 # id_clocks rs))"
    using inj by (rule inj_on_subset) simp
  with d have "distinct (map ?mk (1 # 2 # id_clocks rs))"
    using distinct_map by blast
  then show ?thesis
    by (simp add: run_ids seeded)
qed

text \<open>
  Witness for C2: a create, an assignment and a second create two milliseconds later.
\<close>

theorem ids_distinct_witness:
  "distinct (id_clocks
      [PostTasks 1700000000000 1700000000000 [''title'' \<mapsto> ''Refactor module'', ''status'' \<mapsto> ''todo''],
       PatchAssign 1700000000001 ''tsk-1700000000000'' [''assignee'' \<mapsto> ''dev-9''],
       PostTasks 1700000000002 1700000000002 [''title'' \<mapsto> ''Write more tests'', ''status'' \<mapsto> ''done'']]) \<and>
   1 \<notin> set (id_clocks
      [PostTasks 1700000000000 1700000000000 [''title'' \<mapsto> ''Refactor module'', ''status'' \<mapsto> ''todo''],
       PatchAssign 1700000000001 ''tsk-1700000000000'' [''assignee'' \<mapsto> ''dev-9''],
       PostTasks 1700000000002 1700000000002 [''title'' \<mapsto> ''Write more tests'', ''status'' \<mapsto> ''done'']]) \<and>
   2 \<notin> set (id_clocks
      [PostTasks 1700000000000 1700000000000 [''title'' \<mapsto> ''Refactor module'', ''status'' \<mapsto> ''todo''],
       PatchAssign 1700000000001 ''tsk-1700000000000'' [''assignee'' \<mapsto> ''dev-9''],
       PostTasks 1700000000002 1700000000002 [''title'' \<mapsto> ''Write more tests'', ''status'' \<mapsto> ''done'']]) \<and>
   distinct (map id_task (run
      [PostTasks 1700000000000 1700000000000 [''title'' \<mapsto> ''Refactor module'', ''status'' \<mapsto> ''todo''],
       PatchAssign 1700000000001 ''tsk-1700000000000'' [''assignee'' \<mapsto> ''dev-9''],
       PostTasks 1700000000002 1700000000002 [''title'' \<mapsto> ''Write more tests'', ''status'' \<mapsto> ''done'']]
      initial_tasks))"
proof -
  let ?rs = "[PostTasks 1700000000000 1700000000000 [''title'' \<mapsto> ''Refactor module'', ''status'' \<mapsto> ''todo''],
       PatchAssign 1700000000001 ''tsk-1700000000000'' [''assignee'' \<mapsto> ''dev-9''],
       PostTasks 1700000000002 1700000000002 [''title'' \<mapsto> ''Write more tests'', ''status'' \<mapsto> ''done'']]"
  have c: "id_clocks ?rs = [1700000000000, 1700000000002]"
    by (simp add: eval_defs)
  have h1: "distinct (id_clocks ?rs)" and h2: "1 \<notin> set (id_clocks ?rs)" and h3: "2 \<notin> set (id_clocks ?rs)"
    unfolding c by simp_all
  from ids_distinct_if_clocks_distinct [OF h1 h2 h3] h1 h2 h3 show ?thesis
    by blast
qed

text \<open>
  Claim C3. When the title has fewer than 5 characters after trimming (an absent title
  counts as the empty string) and the status is given but is not one of the three values,
  the response is 400 and lists both violations, the one of the title first.
\<close>

theorem create_lists_every_violation:
  assumes "length (trim (toString (b ''title''))) < 5"
    and "b ''status'' = Some s" and "s \<notin> {''todo'', ''in-progress'', ''done''}"
  shows "post_tasks now_id now_created b tasks =
     ((400, ErrorList [\<lparr>path = ''title'', msg = ''Title must be at least 5 characters''\<rparr>,
                       \<lparr>path = ''status'', msg = ''Invalid status''\<rparr>]), tasks)"
proof -
  have s: "toString (b ''status'') \<notin> set statuses"
    using assms(2,3) by (simp add: toString_def statuses_def)
  from assms(1) s show ?thesis
    by (simp add: post_tasks_def validateTaskInput_eq Let_def title_error_def status_error_def)
qed

text \<open>Witness for C3: the title \<^verbatim>\<open>ok\<close> with the status \<^verbatim>\<open>bogus\<close>.\<close>

theorem create_lists_every_violation_witness:
  "length (trim (toString ([''title'' \<mapsto> ''ok'', ''status'' \<mapsto> ''bogus''] ''title''))) < 5 \<and>
   [''title'' \<mapsto> ''ok'', ''status'' \<mapsto> ''bogus''] ''status'' = Some ''bogus'' \<and>
   ''bogus'' \<notin> {''todo'', ''in-progress'', ''done''} \<and>
   post_tasks 1700000000000 1700000000000 [''title'' \<mapsto> ''ok'', ''status'' \<mapsto> ''bogus''] initial_tasks =
     ((400, ErrorList [\<lparr>path = ''title'', msg = ''Title must be at least 5 characters''\<rparr>,
                       \<lparr>path = ''status'', msg = ''Invalid status''\<rparr>]), initial_tasks)"
proof -
  let ?b = "[''title'' \<mapsto> ''ok'', ''status'' \<mapsto> ''bogus'']"
  have h1: "length (trim (toString (?b ''title''))) < 5"
    by (simp add: trim_def is_space_def toString_def)
  have h2: "?b ''status'' = Some ''bogus''" by simp
  have h3: "''bogus'' \<notin> {''todo'', ''in-progress'', ''done''}" by simp
  from create_lists_every_violation [where b = ?b, OF h1 h2 h3] h1 h2 h3 show ?thesis
    by blast
qed

subsection \<open>Failures\<close>

text \<open>
  Claim C4. A request answered 400 or 404 leaves the array exactly as it was: nothing is
  added, removed or changed.
\<close>

theorem failure_leaves_collection_unchanged:
  "fst (fst (handle r tasks)) \<in> {400, 404} \<Longrightarrow> snd (handle r tasks) = tasks"
proof (cases r)
  case (GetTasks q)
  then show ?thesis by (simp add: get_tasks_snd)
next
  case (PostTasks now_id now_created b)
  assume "fst (fst (handle r tasks)) \<in> {400, 404}"
  with PostTasks have "fst (fst (post_tasks now_id now_created b tasks)) \<noteq> 201"
    by auto
  with PostTasks show ?thesis by (simp add: post_tasks_failure)
next
  case (PatchAssign now taskId b)
  assume "fst (fst (handle r tasks)) \<in> {400, 404}"
  with PatchAssign have "fst (fst (patch_assign now taskId b tasks)) \<noteq> 200"
    by auto
  with PatchAssign show ?thesis by (simp add: patch_assign_failure)
qed

text \<open>
  Witness for C4: an assignment with an invalid assignee, an assignment to an unknown id,
  and a create with a title that is too short.
\<close>

theorem failure_leaves_collection_unchanged_witness:
  "fst (fst (handle (PatchAssign 1700000000000 ''tsk-2'' [''assignee'' \<mapsto> ''not-a-dev'']) initial_tasks))
     \<in> {400, 404} \<and>
   snd (handle (PatchAssign 1700000000000 ''tsk-2'' [''assignee'' \<mapsto> ''not-a-dev'']) initial_tasks)
     = initial_tasks \<and>
   fst (fst (handle (PatchAssign 1700000000000 ''missing-id'' [''assignee'' \<mapsto> ''dev-9'']) initial_tasks))
     \<in> {400, 404} \<and>
   snd (handle (PatchAssign 1700000000000 ''missing-id'' [''assignee'' \<mapsto> ''dev-9'']) initial_tasks)
     = initial_tasks \<and>
   fst (fst (handle (PostTasks 1700000000000 1700000000000 [''title'' \<mapsto> ''ok'']) initial_tasks))
     \<in> {400, 404} \<and>
   snd (handle (PostTasks 1700000000000 1700000000000 [''title'' \<mapsto> ''ok'']) initial_tasks)
     = initial_tasks"
proof -
  have h1: "fst (fst (handle (PatchAssign 1700000000000 ''tsk-2'' [''assignee'' \<mapsto> ''not-a-dev''])
      initial_tasks)) \<in> {400, 404}"
    by (simp add: eval_defs)
  have h2: "fst (fst (handle (PatchAssign 1700000000000 ''missing-id'' [''assignee'' \<mapsto> ''dev-9''])
      initial_tasks)) \<in> {400, 404}"
    by (simp add: eval_defs)
  have h3: "fst (fst (handle (PostTasks 1700000000000 1700000000000 [''title'' \<mapsto> ''ok''])
      initial_tasks)) \<in> {400, 404}"
    by (simp add: eval_defs)
  from h1 h2 h3 failure_leaves_collection_unchanged [OF h1]
    failure_leaves_collection_unchanged [OF h2] failure_leaves_collection_unchanged [OF h3]
  show ?thesis by blast
qed

text \<open>
  Claim C5. An assignment whose assignee is absent, empty or does not start with \<^verbatim>\<open>dev-\<close>
  is answered 400 with its own message, whether or not the id exists; an assignment with a
  valid assignee to an id that no task has is answered 404.
\<close>

theorem assign_error_responses:
  "(b ''assignee'' = None \<or> b ''assignee'' = Some [] \<or>
      (\<exists>s. b ''assignee'' = Some s \<and> \<not> prefix ''dev-'' s) \<longrightarrow>
      patch_assign now taskId b tasks = ((400, ErrorMsg ''Invalid assignee format''), tasks)) \<and>
   (b ''assignee'' = Some a \<and> a \<noteq> [] \<and> prefix ''dev-'' a \<and> taskId \<notin> id_task ` set tasks \<longrightarrow>
      patch_assign now taskId b tasks = ((404, ErrorMsg ''Task not found''), tasks))"
proof (intro conjI impI)
  assume "b ''assignee'' = None \<or> b ''assignee'' = Some [] \<or>
      (\<exists>s. b ''assignee'' = Some s \<and> \<not> prefix ''dev-'' s)"
  then have "\<not> validateAssignee (b ''assignee'')"
    by (auto simp: validateAssignee_def)
  then show "patch_assign now taskId b tasks = ((400, ErrorMsg ''Invalid assignee format''), tasks)"
    by (rule patch_assign_invalid)
next
  assume h: "b ''assignee'' = Some a \<and> a \<noteq> [] \<and> prefix ''dev-'' a \<and> taskId \<notin> id_task ` set tasks"
  then have "validateAssignee (b ''assignee'')"
    by (simp add: validateAssignee_def)
  moreover from h have "findTask taskId tasks = None"
    by (simp add: findTask_None)
  ultimately show "patch_assign now taskId b tasks = ((404, ErrorMsg ''Task not found''), tasks)"
    by (rule patch_assign_missing)
qed

text \<open>Witness for C5: the assignee \<^verbatim>\<open>not-a-dev\<close>, and the id \<^verbatim>\<open>missing-id\<close>.\<close>

theorem assign_error_responses_witness:
  "([''assignee'' \<mapsto> ''not-a-dev''] ''assignee'' = Some ''not-a-dev'' \<and> \<not> prefix ''dev-'' ''not-a-dev'') \<and>
   patch_assign 1700000000000 ''tsk-1'' [''assignee'' \<mapsto> ''not-a-dev''] initial_tasks =
     ((400, ErrorMsg ''Invalid assignee format''), initial_tasks) \<and>
   ([''assignee'' \<mapsto> ''dev-9''] ''assignee'' = Some ''dev-9'' \<and> ''dev-9'' \<noteq> [] \<and>
      prefix ''dev-'' ''dev-9'' \<and> ''missing-id'' \<notin> id_task ` set initial_tasks) \<and>
   patch_assign 1700000000000 ''missing-id'' [''assignee'' \<mapsto> ''dev-9''] initial_tasks =
     ((404, ErrorMsg ''Task not found''), initial_tasks)"
proof -
  have h1: "[''assignee'' \<mapsto> ''not-a-dev''] ''assignee'' = Some ''not-a-dev'' \<and>
      \<not> prefix ''dev-'' ''not-a-dev''"
    by simp
  have h2: "[''assignee'' \<mapsto> ''dev-9''] ''assignee'' = Some ''dev-9'' \<and> ''dev-9'' \<noteq> [] \<and>
      prefix ''dev-'' ''dev-9'' \<and> ''missing-id'' \<notin> id_task ` set initial_tasks"
    by (simp add: initial_tasks_def)
  from h1 h2
    assign_error_responses [where b = "[''assignee'' \<mapsto> ''not-a-dev'']" and now = 1700000000000
      and taskId = "''tsk-1''" and tasks = initial_tasks]
    assign_error_responses [where b = "[''assignee'' \<mapsto> ''dev-9'']" and a = "''dev-9''"
      and now = 1700000000000 and taskId = "''missing-id''" and tasks = initial_tasks]
  show ?thesis by blast
qed

subsection \<open>Assigning a task\<close>

text \<open>
  Claim C6, as stated, fails where it says that \<^verbatim>\<open>updatedAt\<close> is later than \<^verbatim>\<open>createdAt\<close>:
  a task assigned in the millisecond of its creation gets an \<^verbatim>\<open>updatedAt\<close> equal to its
  \<^verbatim>\<open>createdAt\<close>, and the two tasks the array starts with have no \<^verbatim>\<open>createdAt\<close> at all.
\<close>

theorem assign_timestamp_counterexample:
  "fst (patch_assign 1700000000000 ''tsk-1700000000000'' [''assignee'' \<mapsto> ''dev-9'']
        (snd (post_tasks 1700000000000 1700000000000
                [''title'' \<mapsto> ''Refactor module'', ''status'' \<mapsto> ''todo''] initial_tasks))) =
     (200, TaskObj \<lparr>id_task = ''tsk-1700000000000'', title = Some ''Refactor module'',
                     status = ''todo'', assignee = Some ''dev-9'',
                     createdAt = Some 1700000000000, updatedAt = Some 1700000000000\<rparr>) \<and>
   \<not> updated_after_created
       \<lparr>id_task = ''tsk-1700000000000'', title = Some ''Refactor module'',
        status = ''todo'', assignee = Some ''dev-9'',
        createdAt = Some 1700000000000, updatedAt = Some 1700000000000\<rparr> \<and>
   fst (patch_assign 1700000000000 ''tsk-2'' [''assignee'' \<mapsto> ''dev-9''] initial_tasks) =
     (200, TaskObj \<lparr>id_task = ''tsk-2'', title = Some ''Write API documentation'',
                     status = ''todo'', assignee = Some ''dev-9'',
                     createdAt = None, updatedAt = Some 1700000000000\<rparr>) \<and>
   \<not> updated_after_created
       \<lparr>id_task = ''tsk-2'', title = Some ''Write API documentation'',
        status = ''todo'', assignee = Some ''dev-9'',
        createdAt = None, updatedAt = Some 1700000000000\<rparr>"
  by (simp add: eval_defs string_of_nat.simps digit_def updated_after_created_def)

text \<open>
  Claim C6, amended. For every id that a task of the array has and every non-empty
  assignee that starts with \<^verbatim>\<open>dev-\<close>, the assignment is answered 200 with the first task of
  that id, its \<^verbatim>\<open>assignee\<close> set to the given string and its \<^verbatim>\<open>updatedAt\<close> set to the clock
  reading of the request, and that record replaces the task in the array. \<^verbatim>\<open>updatedAt\<close> is
  later than \<^verbatim>\<open>createdAt\<close> exactly when the task has a \<^verbatim>\<open>createdAt\<close> and the clock reading of
  the request is later than it.
\<close>

theorem assign_success:
  assumes "taskId \<in> id_task ` set tasks"
    and "b ''assignee'' = Some a" and "a \<noteq> []" and "prefix ''dev-'' a"
  shows "\<exists>k t. findTask taskId tasks = Some k \<and> k < length tasks \<and>
           id_task (tasks ! k) = taskId \<and>
           t = (tasks ! k)\<lparr>assignee := Some a, updatedAt := Some now\<rparr> \<and>
           patch_assign now taskId b tasks = ((200, TaskObj t), tasks[k := t]) \<and>
           (updated_after_created t \<longleftrightarrow> (\<exists>c. createdAt (tasks ! k) = Some c \<and> c < now))"
proof -
  from assms(1) obtain k where k: "findTask taskId tasks = Some k"
    using findTask_None [of taskId tasks] by (cases "findTask taskId tasks") auto
  have v: "validateAssignee (b ''assignee'')"
    using assms(2-4) by (simp add: validateAssignee_def)
  from findTask_Some [OF k] patch_assign_found [where b = b, OF v k] k assms(2) show ?thesis
    by (simp add: updated_after_created_def split: option.split)
qed

text \<open>
  Witness for C6: \<^verbatim>\<open>dev-9\<close> is assigned to \<^verbatim>\<open>tsk-3000\<close>, created at the clock reading 3000,
  at the clock reading 4000.
\<close>

theorem assign_success_witness:
  "''tsk-3000'' \<in> id_task ` set
      [\<lparr>id_task = ''tsk-3000'', title = Some ''Refactor module'', status = ''todo'',
        assignee = None, createdAt = Some 3000, updatedAt = None\<rparr>] \<and>
   [''assignee'' \<mapsto> ''dev-9''] ''assignee'' = Some ''dev-9'' \<and> ''dev-9'' \<noteq> [] \<and>
   prefix ''dev-'' ''dev-9'' \<and>
   patch_assign 4000 ''tsk-3000'' [''assignee'' \<mapsto> ''dev-9'']
      [\<lparr>id_task = ''tsk-3000'', title = Some ''Refactor module'', status = ''todo'',
        assignee = None, createdAt = Some 3000, updatedAt = None\<rparr>] =
     ((200, TaskObj \<lparr>id_task = ''tsk-3000'', title = Some ''Refactor module'', status = ''todo'',
                      assignee = Some ''dev-9'', createdAt = Some 3000, updatedAt = Some 4000\<rparr>),
      [\<lparr>id_task = ''tsk-3000'', title = Some ''Refactor module'', status = ''todo'',
        assignee = Some ''dev-9'', createdAt = Some 3000, updatedAt = Some 4000\<rparr>]) \<and>
   updated_after_created
     \<lparr>id_task = ''tsk-3000'', title = Some ''Refactor module'', status = ''todo'',
      assignee = Some ''dev-9'', createdAt = Some 3000, updatedAt = Some 4000\<rparr>"
proof -
  let ?ts = "[\<lparr>id_task = ''tsk-3000'', title = Some ''Refactor module'', status = ''todo'',
        assignee = None, createdAt = Some 3000, updatedAt = None\<rparr>]"
  have h1: "''tsk-3000'' \<in> id_task ` set ?ts" by simp
  have h2: "[''assignee'' \<mapsto> ''dev-9''] ''assignee'' = Some ''dev-9''" by simp
  have h3: "''dev-9'' \<noteq> []" by simp
  have h4: "prefix ''dev-'' ''dev-9''" by simp
  from assign_success [where b = "[''assignee'' \<mapsto> ''dev-9'']" and now = 4000, OF h1 h2 h3 h4]
    h1 h2 h3 h4
  show ?thesis
    by auto
qed

text \<open>
  Claim C9. A successful assignment changes one task, the first of the given id, and of
  that task only \<^verbatim>\<open>assignee\<close> and \<^verbatim>\<open>updatedAt\<close>: its id, title, status and \<^verbatim>\<open>createdAt\<close> are
  kept, every other task is kept, and the array keeps its length and its order.
\<close>

theorem assign_frame:
  assumes "fst (fst (patch_assign now taskId b tasks)) = 200"
  shows "\<exists>k. findTask taskId tasks = Some k \<and> k < length tasks \<and>
           length (snd (patch_assign now taskId b tasks)) = length tasks \<and>
           (\<forall>j<length tasks. j \<noteq> k \<longrightarrow> snd (patch_assign now taskId b tasks) ! j = tasks ! j) \<and>
           snd (patch_assign now taskId b tasks) ! k =
             (tasks ! k)\<lparr>assignee := b ''assignee'', updatedAt := Some now\<rparr> \<and>
           id_task (snd (patch_assign now taskId b tasks) ! k) = id_task (tasks ! k) \<and>
           title (snd (patch_assign now taskId b tasks) ! k) = title (tasks ! k) \<and>
           status (snd (patch_assign now taskId b tasks) ! k) = status (tasks ! k) \<and>
           createdAt (snd (patch_assign now taskId b tasks) ! k) = createdAt (tasks ! k)"
proof -
  from patch_assign_200 [OF assms] obtain k
    where v: "validateAssignee (b ''assignee'')" and k: "findTask taskId tasks = Some k"
    by blast
  from findTask_Some [OF k] have "k < length tasks" by simp
  with k show ?thesis
    by (simp add: patch_assign_found [where b = b, OF v k])
qed

text \<open>Witness for C9: \<^verbatim>\<open>dev-9\<close> is assigned to \<^verbatim>\<open>tsk-2\<close> in the array at startup.\<close>

theorem assign_frame_witness:
  "fst (fst (patch_assign 1700000000000 ''tsk-2'' [''assignee'' \<mapsto> ''dev-9''] initial_tasks)) = 200 \<and>
   snd (patch_assign 1700000000000 ''tsk-2'' [''assignee'' \<mapsto> ''dev-9''] initial_tasks) ! 0 =
     initial_tasks ! 0 \<and>
   snd (patch_assign 1700000000000 ''tsk-2'' [''assignee'' \<mapsto> ''dev-9''] initial_tasks) ! 1 =
     (initial_tasks ! 1)\<lparr>assignee := Some ''dev-9'', updatedAt := Some 1700000000000\<rparr>"
proof -
  have h: "fst (fst (patch_assign 1700000000000 ''tsk-2'' [''assignee'' \<mapsto> ''dev-9''] initial_tasks)) = 200"
    by (simp add: eval_defs)
  have k: "findTask ''tsk-2'' initial_tasks = Some 1" "length initial_tasks = 2"
    by (simp_all add: initial_tasks_def)
  from assign_frame [OF h] h k show ?thesis
    by auto
qed

text \<open>
  Claim C10. The assignee check accepts every non-empty string that starts with \<^verbatim>\<open>dev-\<close>,
  the bare string \<^verbatim>\<open>dev-\<close> included, so an assignment of \<^verbatim>\<open>dev-\<close> to an existing id is
  answered 200 with the assignee \<^verbatim>\<open>dev-\<close>.
\<close>

theorem bare_dev_prefix_accepted:
  "validateAssignee (Some ''dev-'') \<and>
   (s \<noteq> [] \<and> prefix ''dev-'' s \<longrightarrow> validateAssignee (Some s)) \<and>
   (taskId \<in> id_task ` set tasks \<and> b ''assignee'' = Some ''dev-'' \<longrightarrow>
      (\<exists>t. fst (patch_assign now taskId b tasks) = (200, TaskObj t) \<and> assignee t = Some ''dev-''))"
proof (intro conjI impI)
  show v: "validateAssignee (Some ''dev-'')"
    by (simp add: validateAssignee_def)
  show "validateAssignee (Some s)" if "s \<noteq> [] \<and> prefix ''dev-'' s"
    using that by (simp add: validateAssignee_def)
  show "\<exists>t. fst (patch_assign now taskId b tasks) = (200, TaskObj t) \<and> assignee t = Some ''dev-''"
    if h: "taskId \<in> id_task ` set tasks \<and> b ''assignee'' = Some ''dev-''"
  proof -
    from h obtain k where k: "findTask taskId tasks = Some k"
      using findTask_None [of taskId tasks] by (cases "findTask taskId tasks") auto
    from h v have "validateAssignee (b ''assignee'')" by simp
    from patch_assign_found [where b = b, OF this k] h show ?thesis by simp
  qed
qed

text \<open>Witness for C10: \<^verbatim>\<open>dev-7\<close> is accepted, and \<^verbatim>\<open>dev-\<close> is assigned to \<^verbatim>\<open>tsk-1\<close>.\<close>

theorem bare_dev_prefix_accepted_witness:
  "(''dev-7'' \<noteq> [] \<and> prefix ''dev-'' ''dev-7'') \<and> validateAssignee (Some ''dev-7'') \<and>
   (''tsk-1'' \<in> id_task ` set initial_tasks \<and> [''assignee'' \<mapsto> ''dev-''] ''assignee'' = Some ''dev-'') \<and>
   (\<exists>t. fst (patch_assign 1700000000000 ''tsk-1'' [''assignee'' \<mapsto> ''dev-''] initial_tasks) =
          (200, TaskObj t) \<and> assignee t = Some ''dev-'')"
proof -
  have h1: "''dev-7'' \<noteq> [] \<and> prefix ''dev-'' ''dev-7''" by simp
  have h2: "''tsk-1'' \<in> id_task ` set initial_tasks \<and>
      [''assignee'' \<mapsto> ''dev-''] ''assignee'' = Some ''dev-''"
    by (simp add: initial_tasks_def)
  from h1 h2
    bare_dev_prefix_accepted [where s = "''dev-7''" and taskId = "''tsk-1''" and tasks = initial_tasks
      and b = "[''assignee'' \<mapsto> ''dev-'']" and now = 1700000000000]
  show ?thesis by blast
qed

subsection \<open>Listing\<close>

text \<open>
  Claim C7, as stated, fails for the empty string as filter: it is not one of the three
  statuses and no task has it as status, yet the handler treats it as no filter and
  answers with the whole array.
\<close>

theorem list_empty_filter_counterexample:
  "'''' \<notin> set statuses \<and>
   get_tasks (Some '''') initial_tasks = ((200, TaskList initial_tasks), initial_tasks) \<and>
   initial_tasks \<noteq> [] \<and>
   filter (\<lambda>t. status t = '''') initial_tasks = []"
  by (simp add: eval_defs)

text \<open>
  Claim C7, amended. Listing always answers 200 and leaves the array as it was. With no
  filter, or with the empty string as filter, the answer is the whole array in its order;
  with a non-empty filter it is the tasks of that status, in the order of the array. In
  every state reached from the array at startup, a non-empty filter that is not one of the
  three statuses gives the empty list.
\<close>

theorem list_result:
  "get_tasks None tasks = ((200, TaskList tasks), tasks) \<and>
   get_tasks (Some []) tasks = ((200, TaskList tasks), tasks) \<and>
   (s \<noteq> [] \<longrightarrow>
      get_tasks (Some s) tasks = ((200, TaskList (filter (\<lambda>t. status t = s) tasks)), tasks)) \<and>
   (s \<noteq> [] \<and> s \<notin> set statuses \<longrightarrow>
      get_tasks (Some s) (run rs initial_tasks) = ((200, TaskList []), run rs initial_tasks))"
proof -
  have "filter (\<lambda>t. status t = s) (run rs initial_tasks) = []" if "s \<notin> set statuses"
    using that run_status [OF initial_status, of rs] by (auto simp: filter_empty_conv)
  then show ?thesis
    by (simp add: get_tasks_def)
qed

text \<open>
  Witness for C7: after one create, the filters \<^verbatim>\<open>todo\<close> and \<^verbatim>\<open>bogus\<close>.
\<close>

theorem list_result_witness:
  "(''todo'' \<noteq> [] \<and>
    get_tasks (Some ''todo'')
      (run [PostTasks 1700000000000 1700000000000 [''title'' \<mapsto> ''Refactor module'', ''status'' \<mapsto> ''todo'']]
         initial_tasks) =
      ((200, TaskList (filter (\<lambda>t. status t = ''todo'')
         (run [PostTasks 1700000000000 1700000000000 [''title'' \<mapsto> ''Refactor module'', ''status'' \<mapsto> ''todo'']]
            initial_tasks))),
       run [PostTasks 1700000000000 1700000000000 [''title'' \<mapsto> ''Refactor module'', ''status'' \<mapsto> ''todo'']]
         initial_tasks)) \<and>
   (''bogus'' \<noteq> [] \<and> ''bogus'' \<notin> set statuses \<and>
    get_tasks (Some ''bogus'')
      (run [PostTasks 1700000000000 1700000000000 [''title'' \<mapsto> ''Refactor module'', ''status'' \<mapsto> ''todo'']]
         initial_tasks) =
      ((200, TaskList []),
       run [PostTasks 1700000000000 1700000000000 [''title'' \<mapsto> ''Refactor module'', ''status'' \<mapsto> ''todo'']]
         initial_tasks))"
proof -
  have h1: "''todo'' \<noteq> []" by simp
  have h2: "''bogus'' \<noteq> [] \<and> ''bogus'' \<notin> set statuses" by (simp add: statuses_def)
  from h1 h2
    list_result [where s = "''todo''"
      and tasks = "run [PostTasks 1700000000000 1700000000000 [''title'' \<mapsto> ''Refactor module'', ''status'' \<mapsto> ''todo'']] initial_tasks"]
    list_result [where s = "''bogus''"
      and rs = "[PostTasks 1700000000000 1700000000000 [''title'' \<mapsto> ''Refactor module'', ''status'' \<mapsto> ''todo'']]"]
  show ?thesis by blast
qed

text \<open>
  Claim C8. Two consecutive list calls with the same filter, with nothing in between,
  return the same response: the first call leaves the array as it was, so the second
  call runs on the same array and answers the same.
\<close>

theorem list_idempotent:
  "snd (get_tasks q tasks) = tasks \<and>
   fst (get_tasks q (snd (get_tasks q tasks))) = fst (get_tasks q tasks)"
  by (simp add: get_tasks_def)

end
